theory Spec2Isabelle
  imports Complex_Main
begin

section \<open>Python values used by the price-analytics core\<close>

text \<open>
  The analytics classes of \<^verbatim>\<open>cs2_trading_bot.py\<close> (\<^verbatim>\<open>PriceAnalyzer\<close> and
  \<^verbatim>\<open>InvestmentAdvisor\<close>) compute on Python floats, ints, strs, lists and dicts.

  A Python float is modelled by \<open>pyfloat\<close>: a finite float is a real number (arithmetic
  on finite values is exact here: rounding and overflow of finite values are not
  modelled), and the three special values are kept, because the control flow of the
  code depends on them (every comparison with \<open>NaN\<close> is false, \<^verbatim>\<open>int(inf)\<close> raises).
  The two signed zeros are one value; the code cannot tell them apart.
\<close>

datatype pyfloat = Fin real | PInf | NInf | NaN

datatype exn = ZeroDivisionError | ValueError | OverflowError | IndexError | AttributeError

text \<open>A Python \<^verbatim>\<open>str\<close> is the list of its Unicode code points.\<close>

type_synonym pystr = "nat list"

definition ascii :: "string \<Rightarrow> pystr" where
  "ascii s = map of_char s"

subsection \<open>Float arithmetic and comparison\<close>

fun fneg :: "pyfloat \<Rightarrow> pyfloat" where
  "fneg (Fin a) = Fin (- a)"
| "fneg PInf = NInf"
| "fneg NInf = PInf"
| "fneg NaN = NaN"

fun fadd :: "pyfloat \<Rightarrow> pyfloat \<Rightarrow> pyfloat" where
  "fadd (Fin a) (Fin b) = Fin (a + b)"
| "fadd NaN _ = NaN"
| "fadd _ NaN = NaN"
| "fadd PInf NInf = NaN"
| "fadd NInf PInf = NaN"
| "fadd PInf _ = PInf"
| "fadd _ PInf = PInf"
| "fadd NInf _ = NInf"
| "fadd _ NInf = NInf"

definition fsub :: "pyfloat \<Rightarrow> pyfloat \<Rightarrow> pyfloat" where
  "fsub a b = fadd a (fneg b)"

text \<open>The product of an infinity and a finite value takes the sign of the product;
  an infinity times zero is \<open>NaN\<close>.\<close>

definition signed_inf :: "bool \<Rightarrow> pyfloat" where
  "signed_inf positive = (if positive then PInf else NInf)"

fun fmul :: "pyfloat \<Rightarrow> pyfloat \<Rightarrow> pyfloat" where
  "fmul (Fin a) (Fin b) = Fin (a * b)"
| "fmul NaN _ = NaN"
| "fmul _ NaN = NaN"
| "fmul (Fin a) PInf = (if a = 0 then NaN else signed_inf (0 < a))"
| "fmul (Fin a) NInf = (if a = 0 then NaN else signed_inf (a < 0))"
| "fmul PInf (Fin b) = (if b = 0 then NaN else signed_inf (0 < b))"
| "fmul NInf (Fin b) = (if b = 0 then NaN else signed_inf (b < 0))"
| "fmul PInf PInf = PInf"
| "fmul PInf NInf = NInf"
| "fmul NInf PInf = NInf"
| "fmul NInf NInf = PInf"

text \<open>Python's float division raises \<^verbatim>\<open>ZeroDivisionError\<close> on a zero divisor, whatever
  the dividend is.\<close>

fun fdiv :: "pyfloat \<Rightarrow> pyfloat \<Rightarrow> exn + pyfloat" where
  "fdiv a (Fin b) =
     (if b = 0 then Inl ZeroDivisionError
      else Inr (case a of
                  Fin x \<Rightarrow> Fin (x / b)
                | PInf \<Rightarrow> signed_inf (0 < b)
                | NInf \<Rightarrow> signed_inf (b < 0)
                | NaN \<Rightarrow> NaN))"
| "fdiv NaN _ = Inr NaN"
| "fdiv _ NaN = Inr NaN"
| "fdiv (Fin a) _ = Inr (Fin 0)"
| "fdiv _ _ = Inr NaN"

fun flt :: "pyfloat \<Rightarrow> pyfloat \<Rightarrow> bool" where
  "flt (Fin a) (Fin b) = (a < b)"
| "flt NaN _ = False"
| "flt _ NaN = False"
| "flt NInf NInf = False"
| "flt NInf _ = True"
| "flt PInf _ = False"
| "flt (Fin a) PInf = True"
| "flt (Fin a) NInf = False"

definition fgt :: "pyfloat \<Rightarrow> pyfloat \<Rightarrow> bool" where
  "fgt a b = flt b a"

definition feq :: "pyfloat \<Rightarrow> pyfloat \<Rightarrow> bool" where
  "feq a b = (a \<noteq> NaN \<and> a = b)"

fun fabs :: "pyfloat \<Rightarrow> pyfloat" where
  "fabs (Fin a) = Fin \<bar>a\<bar>"
| "fabs PInf = PInf"
| "fabs NInf = PInf"
| "fabs NaN = NaN"

text \<open>\<^verbatim>\<open>int(x)\<close> of a float truncates towards zero; it raises \<^verbatim>\<open>ValueError\<close> on
  \<open>NaN\<close> and \<^verbatim>\<open>OverflowError\<close> on an infinity.\<close>

definition trunc :: "real \<Rightarrow> int" where
  "trunc x = (if 0 \<le> x then \<lfloor>x\<rfloor> else \<lceil>x\<rceil>)"

fun py_int :: "pyfloat \<Rightarrow> exn + int" where
  "py_int (Fin x) = Inr (trunc x)"
| "py_int NaN = Inl ValueError"
| "py_int PInf = Inl OverflowError"
| "py_int NInf = Inl OverflowError"

subsection \<open>Exceptions, indexing, slices, \<^verbatim>\<open>min\<close>, \<^verbatim>\<open>max\<close> and \<^verbatim>\<open>sum\<close>\<close>

text \<open>A computation that may raise returns \<open>exn + 'a\<close>; \<open>raise_bind\<close> sequences two of
  them, and \<open>try_except\<close> is a \<^verbatim>\<open>try\<close> block whose \<^verbatim>\<open>except\<close> clause names the caught
  exceptions and returns a default.\<close>

definition raise_bind :: "exn + 'a \<Rightarrow> ('a \<Rightarrow> exn + 'b) \<Rightarrow> exn + 'b" where
  "raise_bind m f = (case m of Inl e \<Rightarrow> Inl e | Inr v \<Rightarrow> f v)"

definition try_except :: "exn + 'a \<Rightarrow> exn list \<Rightarrow> 'a \<Rightarrow> exn + 'a" where
  "try_except m caught dflt =
     (case m of Inl e \<Rightarrow> (if e \<in> set caught then Inr dflt else Inl e) | Inr v \<Rightarrow> Inr v)"

text \<open>\<^verbatim>\<open>xs[i]\<close>: a negative index counts from the end, an index out of range raises.\<close>

definition py_index :: "'a list \<Rightarrow> int \<Rightarrow> exn + 'a" where
  "py_index xs i =
     (if 0 \<le> i \<and> i < int (length xs) then Inr (xs ! nat i)
      else if i < 0 \<and> - int (length xs) \<le> i then Inr (xs ! nat (int (length xs) + i))
      else Inl IndexError)"

text \<open>\<^verbatim>\<open>xs[-k:]\<close> for a positive \<open>k\<close>: the last \<open>k\<close> elements, all of them when there are fewer.\<close>

definition last_n :: "nat \<Rightarrow> 'a list \<Rightarrow> 'a list" where
  "last_n k xs = drop (length xs - k) xs"

text \<open>\<^verbatim>\<open>min\<close> and \<^verbatim>\<open>max\<close> of a list keep the first element and replace it by a later
  one that compares strictly smaller (larger); on an empty list they raise
  \<^verbatim>\<open>ValueError\<close>.\<close>

definition py_min :: "pyfloat list \<Rightarrow> exn + pyfloat" where
  "py_min xs = (case xs of [] \<Rightarrow> Inl ValueError
                | x # rest \<Rightarrow> Inr (foldl (\<lambda>m y. if flt y m then y else m) x rest))"

definition py_max :: "pyfloat list \<Rightarrow> exn + pyfloat" where
  "py_max xs = (case xs of [] \<Rightarrow> Inl ValueError
                | x # rest \<Rightarrow> Inr (foldl (\<lambda>m y. if fgt y m then y else m) x rest))"

text \<open>\<^verbatim>\<open>sum(f(i) for i in ...)\<close>: the terms are computed and added one by one, from the
  integer 0; a term that raises ends the sum.\<close>

fun sum_gen :: "(nat \<Rightarrow> exn + pyfloat) \<Rightarrow> nat list \<Rightarrow> pyfloat \<Rightarrow> exn + pyfloat" where
  "sum_gen f [] acc = Inr acc"
| "sum_gen f (i # rest) acc =
     (case f i of Inl e \<Rightarrow> Inl e | Inr v \<Rightarrow> sum_gen f rest (fadd acc v))"

text \<open>\<^verbatim>\<open>all(f(i) for i in ...)\<close> stops at the first false term.\<close>

fun all_gen :: "(nat \<Rightarrow> exn + bool) \<Rightarrow> nat list \<Rightarrow> exn + bool" where
  "all_gen f [] = Inr True"
| "all_gen f (i # rest) =
     (case f i of Inl e \<Rightarrow> Inl e | Inr b \<Rightarrow> (if b then all_gen f rest else Inr False))"

section \<open>The price history store\<close>

text \<open>A stored point is the dict \<^verbatim>\<open>{'price': ..., 'timestamp': ...}\<close>. A \<^verbatim>\<open>datetime\<close> is
  a number of microseconds, the resolution of \<^verbatim>\<open>datetime.now()\<close>.\<close>

record price_point =
  price :: pyfloat
  timestamp :: int

record PriceAnalyzer =
  price_history :: "pystr \<rightharpoonup> price_point list"

definition init_analyzer :: PriceAnalyzer where
  "init_analyzer = \<lparr>price_history = Map.empty\<rparr>"

definition timedelta_days :: "int \<Rightarrow> int" where
  "timedelta_days d = d * 86400 * 1000000"

definition series :: "PriceAnalyzer \<Rightarrow> pystr \<Rightarrow> price_point list" where
  "series self item_name = (case price_history self item_name of None \<Rightarrow> [] | Some ps \<Rightarrow> ps)"

text \<open>\<^verbatim>\<open>add_price_point\<close> reads the clock twice: \<open>now1\<close> is the reading stored in the
  point, \<open>now2\<close> the reading the cutoff is computed from.\<close>

definition add_price_point :: "PriceAnalyzer \<Rightarrow> pystr \<Rightarrow> pyfloat \<Rightarrow> int \<Rightarrow> int \<Rightarrow> PriceAnalyzer" where
  "add_price_point self item_name p now1 now2 =
     (let h0 = (case price_history self item_name of
                  None \<Rightarrow> (price_history self)(item_name \<mapsto> [])
                | Some _ \<Rightarrow> price_history self);
          appended = (case h0 item_name of None \<Rightarrow> [] | Some ps \<Rightarrow> ps)
                       @ [\<lparr>price = p, timestamp = now1\<rparr>];
          cutoff = now2 - timedelta_days 30
      in self\<lparr>price_history := h0(item_name \<mapsto> filter (\<lambda>q. cutoff < timestamp q) appended)\<rparr>)"

section \<open>Trend classification\<close>

datatype TrendLabel =
  InsufficientData | StableGrowth | Decline | StrongGrowth | StrongDecline | Stable

text \<open>The code returns the label as text; \<open>label_text\<close> is that text, in code points.\<close>

fun label_text :: "TrendLabel \<Rightarrow> pystr" where
  "label_text InsufficientData =
     [128202, 32, 1053, 1077, 1076, 1086, 1089, 1090, 1072, 1090, 1086, 1095, 1085, 1086,
      32, 1076, 1072, 1085, 1085, 1099, 1093]"
| "label_text StableGrowth =
     [128200, 32, 1057, 1090, 1072, 1073, 1080, 1083, 1100, 1085, 1099, 1081, 32,
      1088, 1086, 1089, 1090]"
| "label_text Decline =
     [128201, 32, 1055, 1072, 1076, 1077, 1085, 1080, 1077, 32, 1094, 1077, 1085, 1099]"
| "label_text StrongGrowth =
     [128185, 32, 1057, 1080, 1083, 1100, 1085, 1099, 1081, 32, 1088, 1086, 1089, 1090,
      32, 40, 43, 49, 48, 37, 43, 41]"
| "label_text StrongDecline =
     [9888, 65039, 32, 1057, 1080, 1083, 1100, 1085, 1086, 1077, 32, 1087, 1072, 1076,
      1077, 1085, 1080, 1077, 32, 40, 45, 49, 48, 37, 43, 41]"
| "label_text Stable =
     [10145, 65039, 32, 1057, 1090, 1072, 1073, 1080, 1083, 1100, 1085, 1072, 1103, 32,
      1094, 1077, 1085, 1072]"

definition pair_test :: "(pyfloat \<Rightarrow> pyfloat \<Rightarrow> bool) \<Rightarrow> pyfloat list \<Rightarrow> nat \<Rightarrow> exn + bool" where
  "pair_test cmp prices i =
     raise_bind (py_index prices (int i)) (\<lambda>a.
     raise_bind (py_index prices (int i + 1)) (\<lambda>b. Inr (cmp a b)))"

definition trend_rules :: "pyfloat list \<Rightarrow> exn + TrendLabel" where
  "trend_rules prices =
     raise_bind (all_gen (pair_test flt prices) [0..<length prices - 1]) (\<lambda>rising.
     if rising then Inr StableGrowth
     else raise_bind (all_gen (pair_test fgt prices) [0..<length prices - 1]) (\<lambda>falling.
     if falling then Inr Decline
     else raise_bind (py_index prices (- 1)) (\<lambda>last1.
          raise_bind (py_index prices 0) (\<lambda>first1.
     if fgt last1 (fmul first1 (Fin (11 / 10))) then Inr StrongGrowth
     else raise_bind (py_index prices (- 1)) (\<lambda>last2.
          raise_bind (py_index prices 0) (\<lambda>first2.
     if flt last2 (fmul first2 (Fin (9 / 10))) then Inr StrongDecline
     else Inr Stable))))))"

definition detect_trend :: "PriceAnalyzer \<Rightarrow> pystr \<Rightarrow> exn + TrendLabel" where
  "detect_trend self item_name =
     (case price_history self item_name of
        None \<Rightarrow> Inr InsufficientData
      | Some ps \<Rightarrow>
          if length ps < 3 then Inr InsufficientData
          else let recent = last_n 7 ps; prices = map price recent
               in if length prices < 2 then Inr InsufficientData
                  else try_except (trend_rules prices)
                         [IndexError, ZeroDivisionError] InsufficientData)"

section \<open>Profit potential\<close>

definition potential_body :: "pyfloat list \<Rightarrow> exn + int" where
  "potential_body prices =
     raise_bind (py_min prices) (\<lambda>min_price.
     raise_bind (py_max prices) (\<lambda>max_price.
     if feq min_price (Fin 0) then Inr 50
     else raise_bind (fdiv (fsub max_price min_price) min_price) (\<lambda>q1.
          let volatility = fmul q1 (Fin 100)
          in raise_bind (py_index prices (- 1)) (\<lambda>last_price.
             raise_bind (py_index prices 0) (\<lambda>first_price.
             raise_bind (fdiv (fsub last_price first_price) first_price) (\<lambda>q2.
             let trend = fmul q2 (Fin 100);
                 potential = fadd (fadd (Fin 50) (fmul trend (Fin 2)))
                                  (fmul volatility (Fin (1 / 2)))
             in raise_bind (py_int potential) (\<lambda>k. Inr (max 0 (min 100 k)))))))))"

definition calculate_profit_potential :: "PriceAnalyzer \<Rightarrow> pystr \<Rightarrow> exn + int" where
  "calculate_profit_potential self item_name =
     (case price_history self item_name of
        None \<Rightarrow> Inr 50
      | Some ps \<Rightarrow>
          if length ps < 5 then Inr 50
          else let recent = last_n 14 ps; prices = map price recent
               in try_except (potential_body prices) [ZeroDivisionError, ValueError] 50)"

section \<open>Price prediction\<close>

datatype Direction = Bullish | Bearish | Neutral

text \<open>The message of a prediction is kept as a tag with the values the code formats
  into the text.\<close>

datatype Message =
  MsgInsufficientData | MsgDataError | MsgCalcError
| MsgGrowth pyfloat int | MsgFall pyfloat int | MsgStable int

record Prediction =
  prediction :: Direction
  confidence :: int
  message :: Message

definition py_sum :: "pyfloat list \<Rightarrow> pyfloat" where
  "py_sum xs = foldl fadd (Fin 0) xs"

text \<open>\<^verbatim>\<open>x ** 2\<close> on a float.\<close>

definition fsquare :: "pyfloat \<Rightarrow> pyfloat" where
  "fsquare a = fmul a a"

text \<open>The least-squares fit of \<^verbatim>\<open>predict_price\<close>, from \<^verbatim>\<open>n = len(prices)\<close> to the
  assignment of \<^verbatim>\<open>slope\<close>.\<close>

definition fit_slope :: "pyfloat list \<Rightarrow> exn + pyfloat" where
  "fit_slope prices =
     (let n = length prices;
          x_mean = Fin (real n / 2)
      in raise_bind (fdiv (py_sum prices) (Fin (real n))) (\<lambda>y_mean.
         raise_bind (sum_gen (\<lambda>i. raise_bind (py_index prices (int i)) (\<lambda>p.
                                 Inr (fmul (fsub (Fin (real i)) x_mean) (fsub p y_mean))))
                       [0..<n] (Fin 0)) (\<lambda>numerator.
         raise_bind (sum_gen (\<lambda>i. Inr (fsquare (fsub (Fin (real i)) x_mean)))
                       [0..<n] (Fin 0)) (\<lambda>denominator.
         if feq denominator (Fin 0) then Inr (Fin 0)
         else fdiv numerator denominator))))"

definition predict_body :: "pyfloat list \<Rightarrow> int \<Rightarrow> exn + Prediction" where
  "predict_body prices days =
     raise_bind (fit_slope prices) (\<lambda>slope.
     let predicted_change = fmul slope (Fin (real_of_int days))
     in raise_bind (py_index prices (- 1)) (\<lambda>current_price.
        if feq current_price (Fin 0)
        then Inr \<lparr>prediction = Neutral, confidence = 0, message = MsgDataError\<rparr>
        else raise_bind (fdiv predicted_change current_price) (\<lambda>q.
             let change_percent = fmul q (Fin 100)
             in if fgt change_percent (Fin 5)
                then raise_bind (py_int (fadd (Fin 60) (fabs change_percent))) (\<lambda>c.
                       Inr \<lparr>prediction = Bullish, confidence = min 85 c,
                            message = MsgGrowth change_percent days\<rparr>)
                else if flt change_percent (Fin (- 5))
                then raise_bind (py_int (fadd (Fin 60) (fabs change_percent))) (\<lambda>c.
                       Inr \<lparr>prediction = Bearish, confidence = min 85 c,
                            message = MsgFall (fabs change_percent) days\<rparr>)
                else Inr \<lparr>prediction = Neutral, confidence = 70,
                          message = MsgStable days\<rparr>)))"

definition predict_price :: "PriceAnalyzer \<Rightarrow> pystr \<Rightarrow> int \<Rightarrow> exn + Prediction" where
  "predict_price self item_name days =
     (case price_history self item_name of
        None \<Rightarrow> Inr \<lparr>prediction = Neutral, confidence = 0, message = MsgInsufficientData\<rparr>
      | Some ps \<Rightarrow>
          if length ps < 10
          then Inr \<lparr>prediction = Neutral, confidence = 0, message = MsgInsufficientData\<rparr>
          else let data = last_n 30 ps; prices = map price data
               in try_except (predict_body prices days)
                    [ZeroDivisionError, ValueError, IndexError]
                    \<lparr>prediction = Neutral, confidence = 0, message = MsgCalcError\<rparr>)"

section \<open>Investment advice\<close>

subsection \<open>String operations\<close>

text \<open>\<^verbatim>\<open>str.lower()\<close>, on the Basic Latin and the Cyrillic capitals (the scripts of the
  labels); any other code point is left as it is.\<close>

definition lower_cp :: "nat \<Rightarrow> nat" where
  "lower_cp c =
     (if 65 \<le> c \<and> c \<le> 90 then c + 32
      else if 1040 \<le> c \<and> c \<le> 1071 then c + 32
      else if 1024 \<le> c \<and> c \<le> 1039 then c + 80
      else c)"

definition py_lower :: "pystr \<Rightarrow> pystr" where
  "py_lower s = map lower_cp s"

text \<open>\<^verbatim>\<open>needle in hay\<close> on strs.\<close>

fun py_contains :: "pystr \<Rightarrow> pystr \<Rightarrow> bool" where
  "py_contains needle [] = (needle = [])"
| "py_contains needle (c # cs) =
     (take (length needle) (c # cs) = needle \<or> py_contains needle cs)"

text \<open>\<^verbatim>\<open>s.replace(',', '')\<close>.\<close>

definition remove_commas :: "pystr \<Rightarrow> pystr" where
  "remove_commas s = filter (\<lambda>c. c \<noteq> 44) s"

text \<open>\<^verbatim>\<open>int(s)\<close> on a str, base 10: white space around the number is dropped, then an
  optional sign and decimal digits, where single underscores may stand between digits;
  anything else raises \<^verbatim>\<open>ValueError\<close>. The digits read here are the ASCII ones (the
  decimal digits of other scripts, which Python reads too, are left out), and the limit
  that newer interpreters put on the number of digits is not modelled.\<close>

definition is_space :: "nat \<Rightarrow> bool" where
  "is_space c =
     ((9 \<le> c \<and> c \<le> 13) \<or> c = 32 \<or> c = 133 \<or> c = 160 \<or> c = 5760
      \<or> (8192 \<le> c \<and> c \<le> 8202) \<or> c = 8232 \<or> c = 8233 \<or> c = 8239 \<or> c = 8287
      \<or> c = 12288)"

definition is_digit :: "nat \<Rightarrow> bool" where
  "is_digit c = (48 \<le> c \<and> c \<le> 57)"

definition digit_val :: "nat \<Rightarrow> int" where
  "digit_val c = int c - 48"

definition py_strip :: "pystr \<Rightarrow> pystr" where
  "py_strip s = rev (dropWhile is_space (rev (dropWhile is_space s)))"

fun parse_digits :: "int \<Rightarrow> pystr \<Rightarrow> exn + int" where
  "parse_digits acc [] = Inr acc"
| "parse_digits acc [c] =
     (if is_digit c then Inr (10 * acc + digit_val c) else Inl ValueError)"
| "parse_digits acc (c # d # rest) =
     (if is_digit c then parse_digits (10 * acc + digit_val c) (d # rest)
      else if c = 95 \<and> is_digit d then parse_digits (10 * acc + digit_val d) rest
      else Inl ValueError)"

definition parse_unsigned :: "pystr \<Rightarrow> exn + int" where
  "parse_unsigned s =
     (case s of [] \<Rightarrow> Inl ValueError
      | c # rest \<Rightarrow> if is_digit c then parse_digits (digit_val c) rest else Inl ValueError)"

definition py_int_str :: "pystr \<Rightarrow> exn + int" where
  "py_int_str s =
     (case py_strip s of
        [] \<Rightarrow> Inl ValueError
      | c # rest \<Rightarrow>
          if c = 43 then parse_unsigned rest
          else if c = 45 then raise_bind (parse_unsigned rest) (\<lambda>v. Inr (- v))
          else parse_unsigned (c # rest))"

subsection \<open>The advisor\<close>

datatype Recommendation = Buy | Watch | Avoid | ConditionalBuy | Skip

datatype Strategy =
  HoldMonths | AwaitConfirmation | SeekAlternatives | HoldWeeks | StopLoss | LowVolatility

datatype ReasonTag = PositiveTrend | HighLiquidity | HighPotential | NegativeTrend

record InvestmentAnalysis =
  rating :: int
  recommendation :: Recommendation
  strategy :: Strategy
  pros :: "ReasonTag list"
  cons :: "ReasonTag list"

text \<open>The two words looked for in the lower-cased trend text, in code points.\<close>

definition growth_word :: pystr where
  "growth_word = [1088, 1086, 1089, 1090]"

definition fall_word :: pystr where
  "fall_word = [1087, 1072, 1076, 1077, 1085, 1080, 1077]"

text \<open>The quote is a dict from field names to values. The advisor reads a value only
  through \<^verbatim>\<open>str(...)\<close>, so a value is represented by the text \<^verbatim>\<open>str\<close> gives for it.
  \<open>volume_text\<close> is \<^verbatim>\<open>str(price_data.get('volume', '0'))\<close>.\<close>

definition volume_text :: "(pystr \<rightharpoonup> pystr) \<Rightarrow> pystr" where
  "volume_text price_data =
     (case price_data (ascii ''volume'') of None \<Rightarrow> ascii ''0'' | Some v \<Rightarrow> v)"

definition liquidity_check :: "(pystr \<rightharpoonup> pystr) \<Rightarrow> exn + bool" where
  "liquidity_check price_data =
     (let volume_str = remove_commas (volume_text price_data)
      in raise_bind (py_int_str volume_str) (\<lambda>volume. Inr (100 < volume)))"

definition recommend :: "pystr \<Rightarrow> int \<Rightarrow> Recommendation \<times> Strategy" where
  "recommend mode r =
     (if mode = ascii ''investor''
      then (if 70 < r then (Buy, HoldMonths)
            else if 50 < r then (Watch, AwaitConfirmation)
            else (Avoid, SeekAlternatives))
      else (if 60 < r then (Buy, HoldWeeks)
            else if 45 < r then (ConditionalBuy, StopLoss)
            else (Skip, LowVolatility)))"

definition analyze_item ::
  "(pystr \<rightharpoonup> pystr) \<Rightarrow> pystr \<Rightarrow> int \<Rightarrow> pystr \<Rightarrow> exn + InvestmentAnalysis" where
  "analyze_item price_data trend potential mode =
     (let rating0 = 50;
          growing = py_contains growth_word (py_lower trend);
          rating1 = (if growing then rating0 + 15 else rating0);
          pros1 = (if growing then [PositiveTrend] else [])
      in raise_bind (try_except (liquidity_check price_data) [ValueError, AttributeError] False)
           (\<lambda>liquid.
             let rating2 = (if liquid then rating1 + 10 else rating1);
                 pros2 = (if liquid then pros1 @ [HighLiquidity] else pros1);
                 rating3 = (if 70 < potential then rating2 + 10 else rating2);
                 pros3 = (if 70 < potential then pros2 @ [HighPotential] else pros2);
                 falling = py_contains fall_word (py_lower trend);
                 rating4 = (if falling then rating3 - 15 else rating3);
                 cons1 = (if falling then [NegativeTrend] else []);
                 final = max 0 (min 100 rating4);
                 advice = recommend mode final
             in Inr \<lparr>rating = final, recommendation = fst advice, strategy = snd advice,
                     pros = pros3, cons = cons1\<rparr>))"

section \<open>Definitions used to state the properties\<close>

subsection \<open>Sequences of record operations\<close>

text \<open>One call of \<^verbatim>\<open>add_price_point\<close>: the item, the price and the two clock readings.\<close>

type_synonym record_op = "pystr \<times> pyfloat \<times> int \<times> int"

fun apply_record :: "PriceAnalyzer \<Rightarrow> record_op \<Rightarrow> PriceAnalyzer" where
  "apply_record self (item_name, p, now1, now2) = add_price_point self item_name p now1 now2"

definition run_records :: "PriceAnalyzer \<Rightarrow> record_op list \<Rightarrow> PriceAnalyzer" where
  "run_records self ops = foldl apply_record self ops"

text \<open>The clock readings of the last call on an item, if there is one.\<close>

fun last_insert :: "record_op list \<Rightarrow> pystr \<Rightarrow> (int \<times> int) option" where
  "last_insert [] item_name = None"
| "last_insert ((name, p, now1, now2) # ops) item_name =
     (case last_insert ops item_name of
        Some t \<Rightarrow> Some t
      | None \<Rightarrow> (if name = item_name then Some (now1, now2) else None))"

text \<open>A store that holds one item with the given prices.\<close>

definition store_of :: "pystr \<Rightarrow> pyfloat list \<Rightarrow> PriceAnalyzer" where
  "store_of item_name ps =
     \<lparr>price_history = [item_name \<mapsto> map (\<lambda>p. \<lparr>price = p, timestamp = 0\<rparr>) ps]\<rparr>"

text \<open>Four prices of 1 and then an infinite price, recorded one after the other.\<close>

definition overflow_ops :: "record_op list" where
  "overflow_ops =
     [(ascii ''AK'', Fin 1, 0, 0), (ascii ''AK'', Fin 1, 1, 1), (ascii ''AK'', Fin 1, 2, 2),
      (ascii ''AK'', Fin 1, 3, 3), (ascii ''AK'', PInf, 4, 4)]"

subsection \<open>The trend rules as the specification words them\<close>

text \<open>All consecutive pairs strictly increasing, else all strictly decreasing, else the
  last price above 1.10 times the first, else below 0.90 times the first, else stable.\<close>

definition classify_spec :: "pyfloat list \<Rightarrow> TrendLabel" where
  "classify_spec w =
     (if successively flt w then StableGrowth
      else if successively fgt w then Decline
      else if fgt (last w) (fmul (hd w) (Fin (11 / 10))) then StrongGrowth
      else if flt (last w) (fmul (hd w) (Fin (9 / 10))) then StrongDecline
      else Stable)"

subsection \<open>The profit potential in closed form\<close>



subsection \<open>The fit of the prediction on real numbers\<close>

text \<open>The sums that \<open>fit_slope\<close> computes, on a window of finite prices.\<close>

definition fit_numerator :: "real list \<Rightarrow> real" where
  "fit_numerator w =
     (\<Sum>i<length w. (real i - real (length w) / 2) * (w ! i - sum_list w / real (length w)))"

definition fit_denominator :: "nat \<Rightarrow> real" where
  "fit_denominator n = (\<Sum>i<n. (real i - real n / 2) ^ 2)"

definition code_slope :: "real list \<Rightarrow> real" where
  "code_slope w = fit_numerator w / fit_denominator (length w)"

definition change_percent :: "real list \<Rightarrow> int \<Rightarrow> real" where
  "change_percent w days = code_slope w * real_of_int days / last w * 100"


text \<open>The real numbers of a window when all its prices are finite.\<close>

fun fin_value :: "pyfloat \<Rightarrow> real option" where
  "fin_value (Fin r) = Some r"
| "fin_value PInf = None"
| "fin_value NInf = None"
| "fin_value NaN = None"



text \<open>The perfectly linear series \<open>a + 2 i\<close>, and its instance 10, 12, ..., 28.\<close>

definition linear_prices :: "real \<Rightarrow> nat \<Rightarrow> real list" where
  "linear_prices a n = map (\<lambda>i. a + 2 * real i) [0..<n]"

definition linear_series :: "real list" where
  "linear_series = [10, 12, 14, 16, 18, 20, 22, 24, 26, 28]"

subsection \<open>The rating rubric\<close>

text \<open>Whether the volume field of the quote, commas removed, reads as an integer above
  100.\<close>

definition volume_bonus :: "(pystr \<rightharpoonup> pystr) \<Rightarrow> bool" where
  "volume_bonus price_data =
     (case py_int_str (remove_commas (volume_text price_data)) of
        Inl _ \<Rightarrow> False | Inr v \<Rightarrow> 100 < v)"

definition rating_spec :: "bool \<Rightarrow> bool \<Rightarrow> bool \<Rightarrow> bool \<Rightarrow> int" where
  "rating_spec growth liquid high_potential decline =
     max 0 (min 100 (50 + (if growth then 15 else 0) + (if liquid then 10 else 0)
                        + (if high_potential then 10 else 0) - (if decline then 15 else 0)))"

section \<open>Basic facts\<close>

lemma try_except_Inr [simp]: "try_except (Inr v) cs d = Inr v"
  by (simp add: try_except_def)

lemma raise_bind_Inr [simp]: "raise_bind (Inr v) f = f v"
  by (simp add: raise_bind_def)

lemma raise_bind_Inl [simp]: "raise_bind (Inl e) f = Inl e"
  by (simp add: raise_bind_def)

lemma py_index_nat: "i < length xs \<Longrightarrow> py_index xs (int i) = Inr (xs ! i)"
  by (simp add: py_index_def)

lemma py_index_nat_Suc: "Suc i < length xs \<Longrightarrow> py_index xs (int i + 1) = Inr (xs ! Suc i)"
  using py_index_nat [of "Suc i" xs] by (simp add: add.commute)

lemma py_index_first: "xs \<noteq> [] \<Longrightarrow> py_index xs 0 = Inr (hd xs)"
  by (simp add: py_index_def hd_conv_nth)

lemma py_index_last: "xs \<noteq> [] \<Longrightarrow> py_index xs (- 1) = Inr (last xs)"
proof -
  assume ne: "xs \<noteq> []"
  then have "nat (int (length xs) + - 1) = length xs - 1" and "1 \<le> int (length xs)"
    by (cases xs; simp)+
  with ne show ?thesis
    by (simp add: py_index_def last_conv_nth)
qed



lemma series_init: "series init_analyzer item = []"
  by (simp add: series_def init_analyzer_def)


section \<open>The store: what \<^verbatim>\<open>add_price_point\<close> keeps\<close>

lemma series_add_same:
  "series (add_price_point a item p now1 now2) item =
     filter (\<lambda>q. now2 - timedelta_days 30 < timestamp q)
       (series a item @ [\<lparr>price = p, timestamp = now1\<rparr>])"
  by (simp add: add_price_point_def series_def Let_def split: option.splits)

lemma series_add_other:
  "item' \<noteq> item \<Longrightarrow> series (add_price_point a item p now1 now2) item' = series a item'"
  by (simp add: add_price_point_def series_def Let_def split: option.splits)

text \<open>
  C2, as the code has it. \<^verbatim>\<open>add_price_point\<close> has no input validation: for every price,
  negative and non-finite ones included, it appends the point. When the clock reading of
  the cutoff is less than 30 days after the reading stored in the point, the series of
  the item afterwards is the old series without the points that are not newer than the
  cutoff, followed by the new point; the series of every other item is unchanged.
\<close>

theorem add_price_point_appends_any_price:
  assumes "now2 - timedelta_days 30 < now1" and "other \<noteq> item"
  shows "series (add_price_point a item p now1 now2) item =
           filter (\<lambda>q. now2 - timedelta_days 30 < timestamp q) (series a item)
             @ [\<lparr>price = p, timestamp = now1\<rparr>]
         \<and> series (add_price_point a item p now1 now2) other = series a other"
  using assms by (simp add: series_add_same series_add_other)

theorem add_price_point_appends_any_price_witness:
  "(5::int) - timedelta_days 30 < 5 \<and> ascii ''M4'' \<noteq> ascii ''AK''
   \<and> series (add_price_point init_analyzer (ascii ''AK'') NaN 5 5) (ascii ''AK'')
       = [\<lparr>price = NaN, timestamp = 5\<rparr>]
   \<and> series (add_price_point init_analyzer (ascii ''AK'') NaN 5 5) (ascii ''M4'') = []"
  using add_price_point_appends_any_price
          [of 5 5 "ascii ''M4''" "ascii ''AK''" init_analyzer NaN]
  by (simp add: timedelta_days_def series_init ascii_def)

text \<open>
  C2, as stated, fails: recording the negative price -1 for an item with no history
  changes the stored series of the item.
\<close>

theorem add_price_point_negative_counterexample:
  "series (add_price_point init_analyzer (ascii ''AK'') (Fin (- 1)) 0 0) (ascii ''AK'')
     \<noteq> series init_analyzer (ascii ''AK'')"
  by (simp add: series_add_same series_init timedelta_days_def)

lemma last_insert_snoc:
  "last_insert (ops @ [(name, p, now1, now2)]) item =
     (if name = item then Some (now1, now2) else last_insert ops item)"
  by (induction ops item rule: last_insert.induct) (auto split: option.splits)

lemma retention_after_records:
  "last_insert ops item = Some (now1, now2) \<Longrightarrow>
     \<forall>q \<in> set (series (run_records a ops) item). now2 - timedelta_days 30 < timestamp q"
proof (induction ops arbitrary: now1 now2 rule: rev_induct)
  case Nil
  then show ?case by simp
next
  case (snoc op ops)
  obtain name p t1 t2 where op: "op = (name, p, t1, t2)"
    by (cases op) auto
  show ?case
  proof (cases "name = item")
    case True
    with snoc.prems op have "t2 = now2"
      by (simp add: last_insert_snoc)
    with True op show ?thesis
      by (auto simp: run_records_def series_add_same)
  next
    case False
    with snoc.prems op have "last_insert ops item = Some (now1, now2)"
      by (simp add: last_insert_snoc)
    from snoc.IH [OF this] False op show ?thesis
      by (simp add: run_records_def series_add_other)
  qed
qed

text \<open>
  C8. After any sequence of \<^verbatim>\<open>add_price_point\<close> calls, started from any store, every
  point in the series of an item that was recorded at least once is newer than the
  cutoff of the last call on that item: its timestamp is less than 30 days before the
  clock reading of that call.
\<close>

theorem retention_window_invariant:
  assumes "last_insert ops item = Some (now1, now2)"
    and "q \<in> set (series (run_records a ops) item)"
  shows "now2 - timedelta_days 30 < timestamp q"
  using retention_after_records [OF assms(1)] assms(2) by blast

theorem retention_window_invariant_witness:
  "last_insert [(ascii ''AK'', Fin 10, 0, 1),
                (ascii ''AK'', Fin 11, timedelta_days 31, timedelta_days 31 + 1)]
       (ascii ''AK'') = Some (timedelta_days 31, timedelta_days 31 + 1)
   \<and> series (run_records init_analyzer
        [(ascii ''AK'', Fin 10, 0, 1),
         (ascii ''AK'', Fin 11, timedelta_days 31, timedelta_days 31 + 1)])
        (ascii ''AK'') = [\<lparr>price = Fin 11, timestamp = timedelta_days 31\<rparr>]
   \<and> timedelta_days 31 + 1 - timedelta_days 30
       < timestamp \<lparr>price = Fin 11, timestamp = timedelta_days 31\<rparr>"
  using retention_window_invariant [of
      "[(ascii ''AK'', Fin 10, 0, 1),
        (ascii ''AK'', Fin 11, timedelta_days 31, timedelta_days 31 + 1)]"
      "ascii ''AK''" "timedelta_days 31" "timedelta_days 31 + 1"
      "\<lparr>price = Fin 11, timestamp = timedelta_days 31\<rparr>" init_analyzer]
  by (simp add: run_records_def series_add_same series_init timedelta_days_def)

text \<open>When the clock does not run backwards between the two readings of a call, the
  points are also less than 30 days older than the timestamp of the last point recorded.\<close>

lemma retention_relative_to_stored_timestamp:
  assumes "last_insert ops item = Some (now1, now2)" and "now1 \<le> now2"
    and "q \<in> set (series (run_records a ops) item)"
  shows "now1 - timedelta_days 30 < timestamp q"
  using retention_after_records [OF assms(1)] assms(2,3) by fastforce

section \<open>Trend classification follows the priority order\<close>

lemma all_gen_list_all:
  "(\<And>i. i \<in> set idx \<Longrightarrow> f i = Inr (g i)) \<Longrightarrow> all_gen f idx = Inr (list_all g idx)"
  by (induction idx) auto

lemma successively_nth:
  "successively P xs \<longleftrightarrow> (\<forall>i. Suc i < length xs \<longrightarrow> P (xs ! i) (xs ! Suc i))"
proof (induction P xs rule: successively.induct)
  case (3 P x y xs)
  show ?case
  proof
    assume a: "successively P (x # y # xs)"
    show "\<forall>i. Suc i < length (x # y # xs) \<longrightarrow> P ((x # y # xs) ! i) ((x # y # xs) ! Suc i)"
    proof (intro allI impI)
      fix i assume "Suc i < length (x # y # xs)"
      with a 3 show "P ((x # y # xs) ! i) ((x # y # xs) ! Suc i)"
        by (cases i) auto
    qed
  next
    assume a: "\<forall>i. Suc i < length (x # y # xs) \<longrightarrow> P ((x # y # xs) ! i) ((x # y # xs) ! Suc i)"
    from a [rule_format, of 0] have "P x y" by simp
    moreover have "\<forall>i. Suc i < length (y # xs) \<longrightarrow> P ((y # xs) ! i) ((y # xs) ! Suc i)"
    proof (intro allI impI)
      fix i assume "Suc i < length (y # xs)"
      with a [rule_format, of "Suc i"] show "P ((y # xs) ! i) ((y # xs) ! Suc i)" by simp
    qed
    ultimately show "successively P (x # y # xs)"
      using 3 by simp
  qed
qed simp_all

text \<open>The generator over the indices \<open>0 .. len - 2\<close> never raises and tests exactly the
  consecutive pairs.\<close>

lemma all_pairs_successively:
  "all_gen (pair_test cmp prices) [0..<length prices - 1] = Inr (successively cmp prices)"
proof -
  have "all_gen (pair_test cmp prices) [0..<length prices - 1]
          = Inr (list_all (\<lambda>i. cmp (prices ! i) (prices ! Suc i)) [0..<length prices - 1])"
    by (rule all_gen_list_all) (simp add: pair_test_def py_index_nat py_index_nat_Suc)
  also have "list_all (\<lambda>i. cmp (prices ! i) (prices ! Suc i)) [0..<length prices - 1]
          = successively cmp prices"
    by (auto simp: list_all_iff successively_nth)
  finally show ?thesis .
qed

lemma trend_rules_spec:
  "prices \<noteq> [] \<Longrightarrow> trend_rules prices = Inr (classify_spec prices)"
  unfolding trend_rules_def classify_spec_def all_pairs_successively
  by (simp add: py_index_first py_index_last)


text \<open>The non-monotonic series 10, 10.2, 10.1, 9.9, 11.3 ends above 1.10 times its first
  price.\<close>

lemma detect_trend_example:
  "detect_trend (store_of (ascii ''AK'')
       (map Fin [10, 102 / 10, 101 / 10, 99 / 10, 113 / 10])) (ascii ''AK'')
     = Inr StrongGrowth"
  by (simp add: detect_trend_def store_of_def last_n_def trend_rules_spec classify_spec_def
        fgt_def)

text \<open>A strictly increasing series that also gains more than 10 percent is labelled by
  the monotonic rule.\<close>

lemma detect_trend_monotonic_first:
  "detect_trend (store_of (ascii ''AK'') (map Fin [10, 11, 12, 13, 14])) (ascii ''AK'')
     = Inr StableGrowth"
  by (simp add: detect_trend_def store_of_def last_n_def trend_rules_spec classify_spec_def)

section \<open>Profit potential\<close>









text \<open>With negative prices the first price can be 0 while the minimum is not; the
  division by the first price then raises and the handler returns 50.\<close>

lemma profit_potential_zero_first_price:
  "calculate_profit_potential (store_of (ascii ''AK'') (map Fin [0, - 1, - 1, - 1, - 1]))
     (ascii ''AK'') = Inr 50"
  by (simp add: calculate_profit_potential_def store_of_def last_n_def potential_body_def
        py_min_def py_max_def fgt_def feq_def fsub_def py_index_def try_except_def Let_def)

lemma overflow_history:
  "price_history (run_records init_analyzer overflow_ops) (ascii ''AK'')
     = Some [\<lparr>price = Fin 1, timestamp = 0\<rparr>, \<lparr>price = Fin 1, timestamp = 1\<rparr>,
             \<lparr>price = Fin 1, timestamp = 2\<rparr>, \<lparr>price = Fin 1, timestamp = 3\<rparr>,
             \<lparr>price = PInf, timestamp = 4\<rparr>]"
  by (simp add: overflow_ops_def run_records_def add_price_point_def init_analyzer_def
        timedelta_days_def Let_def)

text \<open>
  C5 does not hold for the code. After four calls of \<^verbatim>\<open>add_price_point\<close> with the price
  1 and one with the price \<^verbatim>\<open>float('inf')\<close>, \<^verbatim>\<open>calculate_profit_potential\<close> computes an
  infinite potential, \<^verbatim>\<open>int(potential)\<close> raises \<^verbatim>\<open>OverflowError\<close>, and the handler, which
  names \<^verbatim>\<open>ZeroDivisionError\<close> and \<^verbatim>\<open>ValueError\<close> only, lets it through to the caller.
\<close>

theorem profit_potential_raises_on_infinite_price:
  "calculate_profit_potential (run_records init_analyzer overflow_ops) (ascii ''AK'')
     = Inl OverflowError"
  by (simp add: calculate_profit_potential_def overflow_history last_n_def potential_body_def
        py_min_def py_max_def fgt_def feq_def fsub_def py_index_def signed_inf_def
        try_except_def Let_def)

section \<open>Price prediction\<close>

subsection \<open>The fit on finite prices\<close>

lemma foldl_fadd_Fin: "foldl fadd (Fin a) (map Fin rs) = Fin (a + sum_list rs)"
  by (induction rs arbitrary: a) (simp_all add: add.assoc)

lemma py_sum_Fin: "py_sum (map Fin rs) = Fin (sum_list rs)"
  by (simp add: py_sum_def foldl_fadd_Fin)

lemma sum_gen_Fin:
  "(\<And>i. i \<in> set idx \<Longrightarrow> f i = Inr (Fin (g i))) \<Longrightarrow>
     sum_gen f idx (Fin a) = Inr (Fin (a + sum_list (map g idx)))"
  by (induction idx arbitrary: a) (simp_all add: add.assoc)

lemma sum_list_upt: "sum_list (map g [0..<n]) = (\<Sum>i<n. g i)"
  by (simp add: interv_sum_list_conv_sum_set_nat atLeast0LessThan)

text \<open>The denominator is positive on a non-empty window, so the branch \<^verbatim>\<open>slope = 0\<close>
  is never taken and the division never raises.\<close>

lemma fit_denominator_pos: "0 < n \<Longrightarrow> 0 < fit_denominator n"
proof -
  assume n: "0 < n"
  have "0 < (real 0 - real n / 2) ^ 2"
    using n by simp
  also have "(real 0 - real n / 2) ^ 2 \<le> (\<Sum>i<n. (real i - real n / 2) ^ 2)"
    by (rule member_le_sum) (use n in auto)
  finally show ?thesis
    unfolding fit_denominator_def .
qed

lemma fit_slope_Fin:
  assumes "w \<noteq> []"
  shows "fit_slope (map Fin w) = Inr (Fin (code_slope w))"
proof -
  let ?n = "length w"
  let ?ym = "sum_list w / real ?n"
  from assms have n: "0 < ?n" by simp
  have ym: "fdiv (py_sum (map Fin w)) (Fin (real ?n)) = Inr (Fin ?ym)"
    using n by (simp add: py_sum_Fin)
  have num: "sum_gen (\<lambda>i. raise_bind (py_index (map Fin w) (int i)) (\<lambda>p.
                 Inr (fmul (fsub (Fin (real i)) (Fin (real ?n / 2))) (fsub p (Fin ?ym)))))
               [0..<?n] (Fin 0) = Inr (Fin (fit_numerator w))"
  proof -
    have "sum_gen (\<lambda>i. raise_bind (py_index (map Fin w) (int i)) (\<lambda>p.
                 Inr (fmul (fsub (Fin (real i)) (Fin (real ?n / 2))) (fsub p (Fin ?ym)))))
               [0..<?n] (Fin 0)
          = Inr (Fin (0 + sum_list (map (\<lambda>i. (real i - real ?n / 2) * (w ! i - ?ym)) [0..<?n])))"
      by (rule sum_gen_Fin) (simp add: py_index_nat fsub_def)
    then show ?thesis
      by (simp add: sum_list_upt fit_numerator_def)
  qed
  have den: "sum_gen (\<lambda>i. Inr (fsquare (fsub (Fin (real i)) (Fin (real ?n / 2)))))
               [0..<?n] (Fin 0) = Inr (Fin (fit_denominator ?n))"
  proof -
    have "sum_gen (\<lambda>i. Inr (fsquare (fsub (Fin (real i)) (Fin (real ?n / 2)))))
               [0..<?n] (Fin 0)
          = Inr (Fin (0 + sum_list (map (\<lambda>i. (real i - real ?n / 2) ^ 2) [0..<?n])))"
      by (rule sum_gen_Fin) (simp add: fsquare_def fsub_def power2_eq_square)
    then show ?thesis
      by (simp add: sum_list_upt fit_denominator_def)
  qed
  have nz: "fit_denominator ?n \<noteq> 0"
    using fit_denominator_pos [OF n] by simp
  show ?thesis
    unfolding fit_slope_def Let_def length_map ym raise_bind_Inr num den
    using nz by (simp add: feq_def code_slope_def)
qed

subsection \<open>The slope on a perfectly linear series\<close>

lemma lessThan_10: "{..<10::nat} = {0, 1, 2, 3, 4, 5, 6, 7, 8, 9}"
  by auto

lemma code_slope_linear: "code_slope linear_series = 33 / 17"
  by (simp add: code_slope_def fit_numerator_def fit_denominator_def linear_series_def
        lessThan_10)

text \<open>
  C1 does not hold for the code. On the ten prices 10, 12, ..., 28 the fit of
  \<^verbatim>\<open>predict_price\<close> gives the slope 33/17 (about 1.94), not 2: \<^verbatim>\<open>x_mean\<close> is \<^verbatim>\<open>n / 2\<close>,
  while the mean of the indices \<open>0 .. n - 1\<close> is \<open>(n - 1) / 2\<close>, so the denominator is too
  large by \<open>n / 4\<close>.
\<close>

theorem fit_slope_linear_series_not_2:
  "fit_slope (map Fin linear_series) = Inr (Fin (33 / 17))"
proof -
  have "linear_series \<noteq> []" by (simp add: linear_series_def)
  from fit_slope_Fin [OF this] show ?thesis
    by (simp add: code_slope_linear)
qed

text \<open>The same for every length and every start: the slope computed on \<open>a + 2 i\<close> with
  \<open>n\<close> points is \<open>2 (n\<^sup>2 - 1) / (n\<^sup>2 + 2)\<close>, which is below 2.\<close>

lemma sum_index: "(\<Sum>i<n. real i) = real n * (real n - 1) / 2"
  by (induction n) (simp_all add: field_simps)

lemma sum_index_sq: "(\<Sum>i<n. (real i)\<^sup>2) = real n * (real n - 1) * (2 * real n - 1) / 6"
  by (induction n) (simp_all add: field_simps power2_eq_square)

lemma sum_list_linear: "sum_list (linear_prices a n) = real n * a + real n * (real n - 1)"
proof -
  have "sum_list (linear_prices a n) = (\<Sum>i<n. a + 2 * real i)"
    by (simp add: linear_prices_def sum_list_upt)
  also have "\<dots> = real n * a + 2 * (\<Sum>i<n. real i)"
    by (simp add: sum.distrib sum_distrib_left)
  finally show ?thesis by (simp add: sum_index)
qed

lemma fit_denominator_closed: "fit_denominator n = real n * ((real n)\<^sup>2 + 2) / 12"
proof -
  have "fit_denominator n = (\<Sum>i<n. (real i)\<^sup>2 - real n * real i + (real n)\<^sup>2 / 4)"
    unfolding fit_denominator_def
    by (rule sum.cong) (simp_all add: power2_eq_square field_simps)
  also have "\<dots> = (\<Sum>i<n. (real i)\<^sup>2) - real n * (\<Sum>i<n. real i) + real n * ((real n)\<^sup>2 / 4)"
    by (simp add: sum.distrib sum_subtractf sum_distrib_left)
  also have "\<dots> = real n * ((real n)\<^sup>2 + 2) / 12"
    unfolding sum_index sum_index_sq by (simp add: power2_eq_square field_simps)
  finally show ?thesis .
qed

lemma fit_numerator_linear:
  assumes "0 < n"
  shows "fit_numerator (linear_prices a n) = real n * ((real n)\<^sup>2 - 1) / 6"
proof -
  have len: "length (linear_prices a n) = n"
    by (simp add: linear_prices_def)
  have mean: "sum_list (linear_prices a n) / real n = a + (real n - 1)"
    using assms by (simp add: sum_list_linear field_simps)
  have "fit_numerator (linear_prices a n)
          = (\<Sum>i<n. (real i - real n / 2) * (a + 2 * real i - (a + (real n - 1))))"
    unfolding fit_numerator_def len mean
    by (rule sum.cong) (simp_all add: linear_prices_def)
  also have "\<dots> = (\<Sum>i<n. 2 * (real i)\<^sup>2 - (2 * real n - 1) * real i + real n * (real n - 1) / 2)"
    by (rule sum.cong) (simp_all add: power2_eq_square field_simps)
  also have "\<dots> = 2 * (\<Sum>i<n. (real i)\<^sup>2) - (2 * real n - 1) * (\<Sum>i<n. real i)
                   + real n * (real n * (real n - 1) / 2)"
    by (simp add: sum.distrib sum_subtractf sum_distrib_left)
  also have "\<dots> = real n * ((real n)\<^sup>2 - 1) / 6"
    unfolding sum_index sum_index_sq by (simp add: power2_eq_square field_simps)
  finally show ?thesis .
qed

lemma ratio_cancel:
  "x \<noteq> 0 \<Longrightarrow> B \<noteq> 0 \<Longrightarrow> (x * A / 6) / (x * B / 12) = 2 * A / (B::real)"
  by (simp add: field_simps)

lemma code_slope_linear_closed:
  assumes "0 < n"
  shows "code_slope (linear_prices a n) = 2 * ((real n)\<^sup>2 - 1) / ((real n)\<^sup>2 + 2)"
proof -
  have len: "length (linear_prices a n) = n"
    by (simp add: linear_prices_def)
  have pos: "0 < (real n)\<^sup>2 + 2"
    by (simp add: add_nonneg_pos)
  show ?thesis
    unfolding code_slope_def len fit_numerator_linear [OF assms] fit_denominator_closed
    using assms pos by (intro ratio_cancel) simp_all
qed

lemma fit_slope_linear_below_2:
  assumes "0 < n"
  shows "fit_slope (map Fin (linear_prices a n))
           = Inr (Fin (2 * ((real n)\<^sup>2 - 1) / ((real n)\<^sup>2 + 2)))"
    and "2 * ((real n)\<^sup>2 - 1) / ((real n)\<^sup>2 + 2) < 2"
proof -
  have "linear_prices a n \<noteq> []"
    using assms by (simp add: linear_prices_def)
  from fit_slope_Fin [OF this] show "fit_slope (map Fin (linear_prices a n))
           = Inr (Fin (2 * ((real n)\<^sup>2 - 1) / ((real n)\<^sup>2 + 2)))"
    by (simp add: code_slope_linear_closed [OF assms])
  have "0 < (real n)\<^sup>2 + 2"
    by (simp add: add_nonneg_pos)
  then show "2 * ((real n)\<^sup>2 - 1) / ((real n)\<^sup>2 + 2) < 2"
    by (simp add: field_simps)
qed

subsection \<open>Classification and confidence\<close>




lemma fsub_absorb_add: "fsub x s = NaN \<Longrightarrow> fsub x (fadd s y) = NaN"
  by (cases x; cases s; cases y; simp add: fsub_def)

lemma fsub_own_sum: "fin_value x = None \<Longrightarrow> fsub x (fadd s x) = NaN"
  by (cases x; cases s; simp add: fsub_def)

lemma fsub_absorb_foldl: "fsub x s = NaN \<Longrightarrow> fsub x (foldl fadd s ys) = NaN"
  by (induction ys arbitrary: s) (simp_all add: fsub_absorb_add)

lemma fsub_member_sum:
  "x \<in> set xs \<Longrightarrow> fin_value x = None \<Longrightarrow> fsub x (foldl fadd s xs) = NaN"
proof (induction xs arbitrary: s)
  case Nil
  then show ?case by simp
next
  case (Cons y ys)
  show ?case
  proof (cases "x = y")
    case True
    with Cons.prems show ?thesis
      by (simp add: fsub_absorb_foldl fsub_own_sum)
  next
    case False
    with Cons show ?thesis by simp
  qed
qed

lemma fsub_absorb_div:
  "fsub x s = NaN \<Longrightarrow> 0 < n \<Longrightarrow> \<exists>m. fdiv s (Fin (real n)) = Inr m \<and> fsub x m = NaN"
  by (cases x; cases s; simp add: fsub_def signed_inf_def)

lemma foldl_fadd_NaN: "foldl fadd NaN ys = NaN"
  by (induction ys) simp_all

lemma fadd_NaN_right: "fadd a NaN = NaN"
  by (cases a) simp_all

lemma fmul_NaN_right: "fmul a NaN = NaN"
  by (cases a) simp_all

lemma fdiv_NaN_left: "b \<noteq> Fin 0 \<Longrightarrow> fdiv NaN b = Inr NaN"
  by (cases b) simp_all

lemma foldl_fadd_member_NaN: "NaN \<in> set ys \<Longrightarrow> foldl fadd a ys = NaN"
proof (induction ys arbitrary: a)
  case Nil
  then show ?case by simp
next
  case (Cons y ys)
  then show ?case
    by (cases "y = NaN") (auto simp: fadd_NaN_right foldl_fadd_NaN)
qed

lemma sum_gen_foldl:
  "(\<And>i. i \<in> set idx \<Longrightarrow> f i = Inr (g i)) \<Longrightarrow>
     sum_gen f idx acc = Inr (foldl fadd acc (map g idx))"
  by (induction idx arbitrary: acc) simp_all

lemma fit_slope_nonfinite:
  assumes bad: "x \<in> set w" "fin_value x = None"
  shows "fit_slope w = Inr NaN"
proof -
  let ?n = "length w"
  from bad have n: "0 < ?n" by (cases w) auto
  from bad obtain k where k: "k < ?n" "w ! k = x"
    by (auto simp: in_set_conv_nth)
  have "fsub x (py_sum w) = NaN"
    unfolding py_sum_def using bad by (rule fsub_member_sum)
  from fsub_absorb_div [OF this n] obtain ym
    where ym: "fdiv (py_sum w) (Fin (real ?n)) = Inr ym" and clash: "fsub x ym = NaN"
    by blast
  let ?g = "\<lambda>i. fmul (fsub (Fin (real i)) (Fin (real ?n / 2))) (fsub (w ! i) ym)"
  have "sum_gen (\<lambda>i. raise_bind (py_index w (int i)) (\<lambda>p.
                 Inr (fmul (fsub (Fin (real i)) (Fin (real ?n / 2))) (fsub p ym))))
               [0..<?n] (Fin 0) = Inr (foldl fadd (Fin 0) (map ?g [0..<?n]))"
    by (rule sum_gen_foldl) (simp add: py_index_nat)
  moreover have "NaN \<in> set (map ?g [0..<?n])"
  proof -
    have gk: "?g k = NaN" using k clash by (simp add: fmul_NaN_right)
    have "?g k \<in> set (map ?g [0..<?n])" using k(1) by simp
    then show ?thesis unfolding gk .
  qed
  ultimately have num: "sum_gen (\<lambda>i. raise_bind (py_index w (int i)) (\<lambda>p.
                 Inr (fmul (fsub (Fin (real i)) (Fin (real ?n / 2))) (fsub p ym))))
               [0..<?n] (Fin 0) = Inr NaN"
    by (simp add: foldl_fadd_member_NaN)
  have den: "sum_gen (\<lambda>i. Inr (fsquare (fsub (Fin (real i)) (Fin (real ?n / 2)))))
               [0..<?n] (Fin 0) = Inr (Fin (fit_denominator ?n))"
  proof -
    have "sum_gen (\<lambda>i. Inr (fsquare (fsub (Fin (real i)) (Fin (real ?n / 2)))))
               [0..<?n] (Fin 0)
          = Inr (Fin (0 + sum_list (map (\<lambda>i. (real i - real ?n / 2) ^ 2) [0..<?n])))"
      by (rule sum_gen_Fin) (simp add: fsquare_def fsub_def power2_eq_square)
    then show ?thesis
      by (simp add: sum_list_upt fit_denominator_def)
  qed
  have nz: "fit_denominator ?n \<noteq> 0"
    using fit_denominator_pos [OF n] by simp
  show ?thesis
    unfolding fit_slope_def Let_def ym raise_bind_Inr num den
    using nz by (simp add: feq_def)
qed

lemma predict_body_nonfinite:
  assumes bad: "x \<in> set w" "fin_value x = None"
  shows "predict_body w days =
           Inr (if last w = Fin 0
                then \<lparr>prediction = Neutral, confidence = 0, message = MsgDataError\<rparr>
                else \<lparr>prediction = Neutral, confidence = 70, message = MsgStable days\<rparr>)"
proof -
  from bad have ne: "w \<noteq> []" by auto
  show ?thesis
    unfolding predict_body_def fit_slope_nonfinite [OF bad] raise_bind_Inr
      py_index_last [OF ne] Let_def
    by (simp add: feq_def fdiv_NaN_left fgt_def)
qed



lemma linear_series_facts:
  "last_n 30 linear_series = linear_series" "length linear_series = 10"
  "last linear_series = 28" "linear_series \<noteq> []"
  by (simp_all add: last_n_def linear_series_def)




text \<open>A window that holds an infinite price: Neutral with confidence 70.\<close>

lemma predict_price_infinite_example:
  "predict_price (store_of (ascii ''AK'') (map Fin linear_series @ [PInf])) (ascii ''AK'') 7
     = Inr \<lparr>prediction = Neutral, confidence = 70, message = MsgStable 7\<rparr>"
proof -
  have h: "price_history (store_of (ascii ''AK'') (map Fin linear_series @ [PInf])) (ascii ''AK'')
        = Some (map (\<lambda>p. \<lparr>price = p, timestamp = 0\<rparr>) (map Fin linear_series @ [PInf]))"
    by (simp add: store_of_def)
  have w: "map price (last_n 30 (map (\<lambda>p. \<lparr>price = p, timestamp = 0\<rparr>)
              (map Fin linear_series @ [PInf]))) = map Fin linear_series @ [PInf]"
    by (simp add: last_n_def linear_series_facts comp_def)
  have "predict_body (map Fin linear_series @ [PInf]) 7
          = Inr \<lparr>prediction = Neutral, confidence = 70, message = MsgStable 7\<rparr>"
    using predict_body_nonfinite [of PInf "map Fin linear_series @ [PInf]" 7] by simp
  then show ?thesis
    unfolding predict_price_def h
    by (simp add: Let_def w linear_series_facts del: map_append)
qed

section \<open>Investment advice\<close>

lemma parse_digits_exn: "parse_digits acc s = Inl e \<Longrightarrow> e = ValueError"
  by (induction acc s rule: parse_digits.induct) (auto split: if_splits)

lemma parse_unsigned_exn: "parse_unsigned s = Inl e \<Longrightarrow> e = ValueError"
  by (auto simp: parse_unsigned_def split: list.splits if_splits dest: parse_digits_exn)

lemma py_int_str_exn: "py_int_str s = Inl e \<Longrightarrow> e = ValueError"
  by (auto simp: py_int_str_def raise_bind_def split: list.splits if_splits sum.splits
      dest: parse_unsigned_exn)

text \<open>The \<^verbatim>\<open>try\<close> block around the volume never lets an exception through: a text that
  does not read as an integer gives no adjustment.\<close>

lemma liquidity_total:
  "try_except (liquidity_check q) [ValueError, AttributeError] False = Inr (volume_bonus q)"
  by (cases "py_int_str (remove_commas (volume_text q))")
     (auto simp: liquidity_check_def volume_bonus_def try_except_def dest: py_int_str_exn)

text \<open>Which of the six labels hold the two words the advisor looks for.\<close>

lemma growth_labels:
  "py_contains growth_word (py_lower (label_text l)) = (l = StableGrowth \<or> l = StrongGrowth)"
  by (cases l) (simp_all add: growth_word_def py_lower_def lower_cp_def)

lemma fall_labels:
  "py_contains fall_word (py_lower (label_text l)) = (l = Decline \<or> l = StrongDecline)"
  by (cases l) (simp_all add: fall_word_def py_lower_def lower_cp_def)

lemma analyze_item_total:
  "\<exists>r. analyze_item q t p mode = Inr r \<and>
       rating r = rating_spec (py_contains growth_word (py_lower t)) (volume_bonus q) (70 < p)
                    (py_contains fall_word (py_lower t)) \<and>
       recommendation r = fst (recommend mode (rating r)) \<and>
       strategy r = snd (recommend mode (rating r))"
  by (simp add: analyze_item_def liquidity_total rating_spec_def Let_def)


lemma volume_bonus_examples:
  "volume_bonus [ascii ''volume'' \<mapsto> ascii ''1,234''] = True"
  "volume_bonus [ascii ''volume'' \<mapsto> ascii ''100''] = False"
  "volume_bonus [ascii ''volume'' \<mapsto> ascii ''N/A''] = False"
  "volume_bonus Map.empty = False"
  by (simp_all add: volume_bonus_def volume_text_def remove_commas_def ascii_def
        py_int_str_def py_strip_def is_space_def parse_unsigned_def is_digit_def digit_val_def)

lemma mode_names:
  "ascii ''trader'' \<noteq> ascii ''investor''" "ascii ''news'' \<noteq> ascii ''investor''"
  by (simp_all add: ascii_def)

text \<open>
  C7. In the mode \<^verbatim>\<open>investor\<close> a rating above 70 gives Buy, above 50 Watch, and else
  Avoid; in the mode \<^verbatim>\<open>trader\<close> a rating above 60 gives Buy, above 45 ConditionalBuy, and
  else Skip. A growth label with nothing else gives the rating 65, for which the investor
  mode says Watch and the trader mode says Buy.
\<close>

theorem recommendation_by_mode:
  "(\<exists>r. analyze_item q t p (ascii ''investor'') = Inr r \<and>
        recommendation r = (if 70 < rating r then Buy else if 50 < rating r then Watch else Avoid))
   \<and> (\<exists>r. analyze_item q t p (ascii ''trader'') = Inr r \<and>
        recommendation r =
          (if 60 < rating r then Buy else if 45 < rating r then ConditionalBuy else Skip))
   \<and> (\<exists>r1 r2. analyze_item Map.empty (label_text StableGrowth) 50 (ascii ''investor'') = Inr r1
         \<and> analyze_item Map.empty (label_text StableGrowth) 50 (ascii ''trader'') = Inr r2
         \<and> rating r1 = 65 \<and> rating r2 = 65 \<and> recommendation r1 = Watch \<and> recommendation r2 = Buy)"
proof (intro conjI)
  show "\<exists>r. analyze_item q t p (ascii ''investor'') = Inr r \<and>
        recommendation r = (if 70 < rating r then Buy else if 50 < rating r then Watch else Avoid)"
    using analyze_item_total [of q t p "ascii ''investor''"] by (auto simp: recommend_def)
  show "\<exists>r. analyze_item q t p (ascii ''trader'') = Inr r \<and>
        recommendation r =
          (if 60 < rating r then Buy else if 45 < rating r then ConditionalBuy else Skip)"
    using analyze_item_total [of q t p "ascii ''trader''"]
    by (auto simp: recommend_def mode_names)
  have r65: "rating_spec True False False False = 65"
    by (simp add: rating_spec_def)
  obtain r1 where r1: "analyze_item Map.empty (label_text StableGrowth) 50 (ascii ''investor'') = Inr r1"
     "rating r1 = 65" "recommendation r1 = fst (recommend (ascii ''investor'') (rating r1))"
    using analyze_item_total [of Map.empty "label_text StableGrowth" 50 "ascii ''investor''"]
    unfolding growth_labels fall_labels volume_bonus_examples by (auto simp: r65)
  obtain r2 where r2: "analyze_item Map.empty (label_text StableGrowth) 50 (ascii ''trader'') = Inr r2"
     "rating r2 = 65" "recommendation r2 = fst (recommend (ascii ''trader'') (rating r2))"
    using analyze_item_total [of Map.empty "label_text StableGrowth" 50 "ascii ''trader''"]
    unfolding growth_labels fall_labels volume_bonus_examples by (auto simp: r65)
  show "\<exists>r1 r2. analyze_item Map.empty (label_text StableGrowth) 50 (ascii ''investor'') = Inr r1
         \<and> analyze_item Map.empty (label_text StableGrowth) 50 (ascii ''trader'') = Inr r2
         \<and> rating r1 = 65 \<and> rating r2 = 65 \<and> recommendation r1 = Watch \<and> recommendation r2 = Buy"
    using r1 r2 by (simp add: recommend_def mode_names)
qed

text \<open>
  C10. Every mode other than \<^verbatim>\<open>investor\<close>, whether \<^verbatim>\<open>trader\<close>, \<^verbatim>\<open>news\<close> or a text that
  names no mode, gets the trader thresholds: above 60 Buy, above 45 ConditionalBuy,
  else Skip. No mode is rejected: an analysis is returned for each.
\<close>

theorem other_modes_use_trader_thresholds:
  "mode \<noteq> ascii ''investor'' \<Longrightarrow>
     \<exists>r. analyze_item q t p mode = Inr r \<and>
         recommendation r =
           (if 60 < rating r then Buy else if 45 < rating r then ConditionalBuy else Skip)"
  using analyze_item_total [of q t p mode] by (auto simp: recommend_def)

theorem other_modes_use_trader_thresholds_witness:
  "ascii ''news'' \<noteq> ascii ''investor'' \<and>
   (\<exists>r. analyze_item Map.empty [] 0 (ascii ''news'') = Inr r \<and>
         recommendation r =
           (if 60 < rating r then Buy else if 45 < rating r then ConditionalBuy else Skip))"
  using other_modes_use_trader_thresholds [of "ascii ''news''" Map.empty "[]" 0]
  by (simp add: ascii_def)

end
